theory Spec2Isabelle
  imports Complex_Main "HOL-Library.AList"
begin

section \<open>Numbers and errors of the host language\<close>

text \<open>
  The tracker is Python. Its \<open>int\<close> is unbounded and is modelled by \<^typ>\<open>int\<close>; its
  \<open>float\<close> is modelled by \<^typ>\<open>real\<close>, that is, arithmetic is exact and rounding
  error, overflow to infinity and subnormal underflow are outside the model. What the
  model does keep is the difference between the two kinds of division the source uses:
  Python's own \<open>/\<close> raises \<open>ZeroDivisionError\<close> on a zero divisor, numpy's \<open>/\<close> on
  \<open>np.float64\<close> does not raise and yields \<open>inf\<close>, \<open>-inf\<close> or \<open>nan\<close>. Where a
  rounding error can change a decision, as in the threshold tests of the opportunity
  detection, the float operations are parameters of the model instead.
\<close>

datatype py_error = ZeroDivisionError | ValueError string

datatype npfloat = Fin real | PInf | NInf | NaN

definition py_truediv :: "real \<Rightarrow> real \<Rightarrow> py_error + real" where
  "py_truediv a b = (if b = 0 then Inl ZeroDivisionError else Inr (a / b))"

definition then_res :: "py_error + 'a \<Rightarrow> ('a \<Rightarrow> py_error + 'b) \<Rightarrow> py_error + 'b" where
  "then_res r f = (case r of Inl e \<Rightarrow> Inl e | Inr v \<Rightarrow> f v)"



section \<open>The numpy routines the analyzer calls\<close>

text \<open>
  numpy is a library, not part of the repository; the routines are written out from
  their documented behaviour. The reductions (\<open>mean\<close>, \<open>var\<close>, \<open>std\<close>, \<open>min\<close>, \<open>max\<close>,
  \<open>percentile\<close>) are only ever called by the analyzer on non-empty lists of finite
  numbers, where their value is finite, so they return \<^typ>\<open>real\<close>; on the empty list
  (which the guards of the callers exclude) the definitions below say nothing useful.
  Division and what follows a division work on \<^typ>\<open>npfloat\<close>. A zero divisor is
  always the positive zero here (a square root, or a sum of integers).
\<close>

fun np_div :: "npfloat \<Rightarrow> npfloat \<Rightarrow> npfloat" where
  "np_div NaN _ = NaN"
| "np_div _ NaN = NaN"
| "np_div (Fin a) (Fin b) =
     (if b \<noteq> 0 then Fin (a / b) else if a = 0 then NaN else if a > 0 then PInf else NInf)"
| "np_div (Fin a) _ = Fin 0"
| "np_div PInf (Fin b) = (if b \<ge> 0 then PInf else NInf)"
| "np_div NInf (Fin b) = (if b \<ge> 0 then NInf else PInf)"
| "np_div _ _ = NaN"

fun np_mul :: "npfloat \<Rightarrow> npfloat \<Rightarrow> npfloat" where
  "np_mul NaN _ = NaN"
| "np_mul _ NaN = NaN"
| "np_mul (Fin a) (Fin b) = Fin (a * b)"
| "np_mul (Fin a) PInf = (if a = 0 then NaN else if a > 0 then PInf else NInf)"
| "np_mul (Fin a) NInf = (if a = 0 then NaN else if a > 0 then NInf else PInf)"
| "np_mul PInf (Fin b) = (if b = 0 then NaN else if b > 0 then PInf else NInf)"
| "np_mul NInf (Fin b) = (if b = 0 then NaN else if b > 0 then NInf else PInf)"
| "np_mul PInf PInf = PInf"
| "np_mul NInf NInf = PInf"
| "np_mul _ _ = NInf"

fun np_sqrt :: "npfloat \<Rightarrow> npfloat" where
  "np_sqrt (Fin a) = (if a < 0 then NaN else Fin (sqrt a))"
| "np_sqrt PInf = PInf"
| "np_sqrt _ = NaN"

text \<open>\<open>x > t\<close> for a finite \<open>t\<close>: false when \<open>x\<close> is \<open>nan\<close>.\<close>

fun np_gt :: "npfloat \<Rightarrow> real \<Rightarrow> bool" where
  "np_gt (Fin a) t = (a > t)"
| "np_gt PInf t = True"
| "np_gt _ t = False"

fun np_isnan :: "npfloat \<Rightarrow> bool" where
  "np_isnan NaN = True"
| "np_isnan _ = False"

fun np_clip :: "real \<Rightarrow> real \<Rightarrow> npfloat \<Rightarrow> npfloat" where
  "np_clip lo hi (Fin a) = Fin (min hi (max lo a))"
| "np_clip lo hi PInf = Fin hi"
| "np_clip lo hi NInf = Fin lo"
| "np_clip lo hi NaN = NaN"

definition np_mean :: "real list \<Rightarrow> real" where
  "np_mean xs = sum_list xs / real (length xs)"

definition np_var :: "real list \<Rightarrow> real" where
  "np_var xs = np_mean (map (\<lambda>x. (x - np_mean xs)\<^sup>2) xs)"

definition np_std :: "real list \<Rightarrow> real" where
  "np_std xs = sqrt (np_var xs)"

definition np_min :: "real list \<Rightarrow> real" where
  "np_min xs = Min (set xs)"

definition np_max :: "real list \<Rightarrow> real" where
  "np_max xs = Max (set xs)"

text \<open>\<open>np.percentile\<close> with the default (linear) method: the value at the virtual
  index \<open>(n - 1) * q / 100\<close> of the sorted data, interpolated between its neighbours.\<close>

definition np_percentile :: "real list \<Rightarrow> real \<Rightarrow> real" where
  "np_percentile xs q =
     (let arr = sort xs;
          n = length xs;
          virtual_index = real (n - 1) * (q / 100);
          previous_index = nat \<lfloor>virtual_index\<rfloor>;
          next_index = min (previous_index + 1) (n - 1);
          gamma = virtual_index - real previous_index
      in arr ! previous_index + (arr ! next_index - arr ! previous_index) * gamma)"

text \<open>\<open>np.cov\<close> of two rows (one entry of the matrix): the sum of the products of the
  deviations, divided by \<open>N - 1\<close>, the divisor being set to 0 when it is not positive.\<close>

definition np_cov :: "real list \<Rightarrow> real list \<Rightarrow> npfloat" where
  "np_cov xs ys =
     np_div (Fin (\<Sum>(x, y)\<leftarrow>zip xs ys. (x - np_mean xs) * (y - np_mean ys)))
       (Fin (max (real (length xs) - 1) 0))"

text \<open>\<open>np.corrcoef(xs, ys)[0, 1]\<close>: the covariance, divided by the standard deviation
  of the first row, then by that of the second, then clipped to \<open>[-1, 1]\<close>.\<close>

definition np_corrcoef :: "real list \<Rightarrow> real list \<Rightarrow> npfloat" where
  "np_corrcoef xs ys =
     (let c = np_cov xs ys;
          stddev0 = np_sqrt (np_cov xs xs);
          stddev1 = np_sqrt (np_cov ys ys)
      in np_clip (- 1) 1 (np_div (np_div c stddev0) stddev1))"

section \<open>config.py\<close>

record Config =
  input_mint :: string
  output_mint :: string
  amount :: int
  frequency :: real
  duration :: int
  concurrent_requests :: int
  slippage_bps :: int
  latency_injection :: real
  output_file :: string
  api_timeout :: real
  max_retries :: int

definition default_config :: Config where
  "default_config =
     \<lparr> input_mint = ''So11111111111111111111111111111111111111112'',
       output_mint = ''EPjFWdd5AufqSSqeM2qN1xzybapC8G4wEGGkZwyTDt1v'',
       amount = 1000000,
       frequency = 5,
       duration = 60,
       concurrent_requests = 10,
       slippage_bps = 50,
       latency_injection = 0,
       output_file = ''quote_analysis.csv'',
       api_timeout = 10,
       max_retries = 3 \<rparr>"

text \<open>\<open>Config.__post_init__\<close>: the checks in the order of the source; the first one
  that fires raises.\<close>

definition post_init :: "Config \<Rightarrow> py_error + unit" where
  "post_init c =
     (if frequency c \<le> 0 then Inl (ValueError ''Frequency must be greater than 0'')
      else if duration c \<le> 0 then Inl (ValueError ''Duration must be greater than 0'')
      else if concurrent_requests c \<le> 0
        then Inl (ValueError ''Concurrent requests must be greater than 0'')
      else if amount c \<le> 0 then Inl (ValueError ''Amount must be greater than 0'')
      else if slippage_bps c < 0 then Inl (ValueError ''Slippage BPS cannot be negative'')
      else if latency_injection c < 0
        then Inl (ValueError ''Latency injection cannot be negative'')
      else Inr ())"

text \<open>Constructing a \<open>Config\<close>: the dataclass stores the fields, then runs
  \<open>__post_init__\<close>; the object exists only if that returns.\<close>

definition Config_new :: "Config \<Rightarrow> py_error + Config" where
  "Config_new c = then_res (post_init c) (\<lambda>_. Inr c)"

definition requests_per_worker :: "Config \<Rightarrow> py_error + real" where
  "requests_per_worker c = py_truediv (frequency c) (real_of_int (concurrent_requests c))"

definition worker_interval :: "Config \<Rightarrow> py_error + real" where
  "worker_interval c = then_res (requests_per_worker c) (\<lambda>r. py_truediv 1 r)"

text \<open>The first line of \<open>QuoteTracker.quote_worker\<close> (and of the two worker wrappers of
  the web application): \<open>interval = 1.0 / (frequency / concurrent_requests)\<close>.\<close>

definition quote_worker_interval :: "Config \<Rightarrow> py_error + real" where
  "quote_worker_interval c =
     then_res (py_truediv (frequency c) (real_of_int (concurrent_requests c)))
       (\<lambda>r. py_truediv 1 r)"

section \<open>models.py\<close>

record QuoteData =
  timestamp :: real
  request_time :: real
  response_time :: real
  latency :: real
  output_amount :: int
  price_impact_pct :: real
  route_plan :: "(string \<times> string) list list"
  success :: bool
  error :: "string option"

text \<open>The two ways \<open>get_quote\<close> builds a sample: from a 200 response, and from any
  failure (\<open>output_amount = 0\<close>, an error text).\<close>

definition quote_ok :: "real \<Rightarrow> real \<Rightarrow> int \<Rightarrow> QuoteData" where
  "quote_ok t l a =
     \<lparr> timestamp = t, request_time = t, response_time = t + l, latency = l,
       output_amount = a, price_impact_pct = 0, route_plan = [], success = True,
       error = None \<rparr>"

definition quote_failed :: "real \<Rightarrow> real \<Rightarrow> string \<Rightarrow> QuoteData" where
  "quote_failed t l msg =
     \<lparr> timestamp = t, request_time = t, response_time = t + l, latency = l,
       output_amount = 0, price_impact_pct = 0, route_plan = [], success = False,
       error = Some msg \<rparr>"

section \<open>utils.py\<close>

definition calculate_drift :: "int \<Rightarrow> int \<Rightarrow> py_error + real" where
  "calculate_drift previous_amount current_amount =
     (if previous_amount = 0 then Inr 0
      else then_res
             (py_truediv (real_of_int (current_amount - previous_amount))
                (real_of_int previous_amount))
             (\<lambda>r. Inr (r * 100)))"

section \<open>data_analyzer.py: drift series and front-running count\<close>

record DataAnalyzer =
  drift_threshold :: real
  latency_advantage_threshold :: real

definition DataAnalyzer_new :: DataAnalyzer where
  "DataAnalyzer_new = \<lparr> drift_threshold = 0.01, latency_advantage_threshold = 0.05 \<rparr>"

text \<open>The loop of \<open>analyze_quotes\<close> that fills \<open>drifts\<close>: for \<open>i\<close> from 1 to the end,
  append \<open>calculate_drift(quotes[i-1].output_amount, quotes[i].output_amount)\<close>.\<close>

fun drift_loop :: "QuoteData list \<Rightarrow> py_error + real list" where
  "drift_loop (previous # current # rest) =
     then_res (calculate_drift (output_amount previous) (output_amount current))
       (\<lambda>drift. then_res (drift_loop (current # rest)) (\<lambda>drifts. Inr (drift # drifts)))"
| "drift_loop _ = Inr []"

text \<open>The loop of \<open>analyze_frontrun_opportunities\<close>, with the counter it increments.\<close>

fun frontrun_loop :: "DataAnalyzer \<Rightarrow> nat \<Rightarrow> QuoteData list \<Rightarrow> py_error + nat" where
  "frontrun_loop a opportunities (previous # current # rest) =
     (let timing_advantage = latency previous - latency current in
      then_res (calculate_drift (output_amount previous) (output_amount current))
        (\<lambda>price_drift.
           frontrun_loop a
             (if timing_advantage > latency_advantage_threshold a
                 \<and> \<bar>price_drift\<bar> > drift_threshold a
              then opportunities + 1 else opportunities)
             (current # rest)))"
| "frontrun_loop a opportunities _ = Inr opportunities"

definition analyze_frontrun_opportunities :: "DataAnalyzer \<Rightarrow> QuoteData list \<Rightarrow> py_error + nat" where
  "analyze_frontrun_opportunities a quotes = frontrun_loop a 0 quotes"

section \<open>data_analyzer.py: correlation, the analysis result, anomalies\<close>

text \<open>The loop of \<open>calculate_latency_price_correlation\<close>: the latency of each sample
  after the first, and the absolute drift from its predecessor.\<close>

fun correlation_loop :: "QuoteData list \<Rightarrow> py_error + (real list \<times> real list)" where
  "correlation_loop (previous # current # rest) =
     then_res (calculate_drift (output_amount previous) (output_amount current))
       (\<lambda>price_change.
          then_res (correlation_loop (current # rest))
            (\<lambda>(latencies, price_changes).
               Inr (latency current # latencies, \<bar>price_change\<bar> # price_changes)))"
| "correlation_loop _ = Inr ([], [])"

definition calculate_latency_price_correlation :: "QuoteData list \<Rightarrow> py_error + npfloat" where
  "calculate_latency_price_correlation quotes =
     (if length quotes < 3 then Inr (Fin 0)
      else then_res (correlation_loop quotes)
        (\<lambda>(latencies, price_changes).
           if length latencies < 2 then Inr (Fin 0)
           else let correlation = np_corrcoef latencies price_changes in
                Inr (if \<not> np_isnan correlation then correlation else Fin 0)))"

definition calculate_avg_interval :: "real list \<Rightarrow> real" where
  "calculate_avg_interval timestamps =
     (if length timestamps < 2 then 0
      else np_mean (map (\<lambda>i. timestamps ! i - timestamps ! (i - 1)) [1..<length timestamps]))"

text \<open>The values of the result dictionary are counts and floats.\<close>

datatype pyval = PInt int | PFloat npfloat

type_synonym pydict = "(string \<times> pyval) list"

text \<open>\<open>d.update(other)\<close>: an existing key keeps its place and takes the new value, a new
  key goes to the end.\<close>

definition dict_update :: "pydict \<Rightarrow> pydict \<Rightarrow> pydict" where
  "dict_update d other = fold (\<lambda>(k, v). AList.update k v) other d"

definition calculate_drift_percentiles :: "real list \<Rightarrow> pydict" where
  "calculate_drift_percentiles drifts =
     (if drifts = [] then []
      else [ (''drift_p10'', PFloat (Fin (np_percentile drifts 10))),
             (''drift_p25'', PFloat (Fin (np_percentile drifts 25))),
             (''drift_p50'', PFloat (Fin (np_percentile drifts 50))),
             (''drift_p75'', PFloat (Fin (np_percentile drifts 75))),
             (''drift_p90'', PFloat (Fin (np_percentile drifts 90))),
             (''drift_p95'', PFloat (Fin (np_percentile drifts 95))),
             (''drift_p99'', PFloat (Fin (np_percentile drifts 99))) ])"

definition calculate_latency_percentiles :: "real list \<Rightarrow> pydict" where
  "calculate_latency_percentiles latencies =
     (if latencies = [] then []
      else let latencies_ms = map (\<lambda>l. l * 1000) latencies in
           [ (''latency_p10_ms'', PFloat (Fin (np_percentile latencies_ms 10))),
             (''latency_p25_ms'', PFloat (Fin (np_percentile latencies_ms 25))),
             (''latency_p50_ms'', PFloat (Fin (np_percentile latencies_ms 50))),
             (''latency_p75_ms'', PFloat (Fin (np_percentile latencies_ms 75))),
             (''latency_p90_ms'', PFloat (Fin (np_percentile latencies_ms 90))),
             (''latency_p95_ms'', PFloat (Fin (np_percentile latencies_ms 95))),
             (''latency_p99_ms'', PFloat (Fin (np_percentile latencies_ms 99))) ])"

text \<open>\<open>analyze_quotes\<close>: \<open>None\<close> is the absent result, \<open>Inl\<close> a raised exception. The
  entries of the dictionary are evaluated in the order of the source.\<close>

definition analyze_quotes :: "DataAnalyzer \<Rightarrow> QuoteData list \<Rightarrow> py_error + pydict option" where
  "analyze_quotes a quotes =
     (if quotes = [] then Inr None
      else let successful_quotes = filter success quotes in
      if length successful_quotes < 2 then Inr None
      else let output_amounts = map (\<lambda>q. real_of_int (output_amount q)) successful_quotes;
               latencies = map latency successful_quotes;
               timestamps = map timestamp successful_quotes in
      then_res (drift_loop successful_quotes) (\<lambda>drifts.
      if drifts = [] then Inr None
      else
      then_res (py_truediv (real (length successful_quotes)) (real (length quotes)))
        (\<lambda>rate.
      then_res (analyze_frontrun_opportunities a successful_quotes) (\<lambda>frontrun.
      then_res (calculate_latency_price_correlation successful_quotes) (\<lambda>correlation.
        let results =
          [ (''total_quotes'', PInt (int (length quotes))),
            (''successful_quotes'', PInt (int (length successful_quotes))),
            (''failed_quotes'', PInt (int (length quotes) - int (length successful_quotes))),
            (''success_rate'', PFloat (Fin (rate * 100))),
            (''avg_latency'', PFloat (Fin (np_mean latencies))),
            (''min_latency'', PFloat (Fin (np_min latencies))),
            (''max_latency'', PFloat (Fin (np_max latencies))),
            (''latency_std_dev'', PFloat (Fin (np_std latencies))),
            (''avg_output_amount'', PFloat (Fin (np_mean output_amounts))),
            (''min_output_amount'', PFloat (Fin (np_min output_amounts))),
            (''max_output_amount'', PFloat (Fin (np_max output_amounts))),
            (''output_amount_std_dev'', PFloat (Fin (np_std output_amounts))),
            (''avg_drift'', PFloat (Fin (np_mean drifts))),
            (''min_drift'', PFloat (Fin (np_min drifts))),
            (''max_drift'', PFloat (Fin (np_max drifts))),
            (''drift_std_dev'', PFloat (Fin (np_std drifts))),
            (''drift_variance'', PFloat (Fin (np_var drifts))),
            (''price_variance'', PFloat (Fin (np_var output_amounts))),
            (''price_volatility'',
               PFloat (np_mul (np_div (Fin (np_std output_amounts))
                                 (Fin (np_mean output_amounts))) (Fin 100))),
            (''frontrun_opportunities'', PInt (int frontrun)),
            (''latency_price_correlation'', PFloat correlation),
            (''duration'', PFloat (Fin (last timestamps - hd timestamps))),
            (''avg_request_interval'', PFloat (Fin (calculate_avg_interval timestamps))),
            (''positive_drifts'', PInt (int (length (filter (\<lambda>d. d > 0) drifts)))),
            (''negative_drifts'', PInt (int (length (filter (\<lambda>d. d < 0) drifts)))),
            (''significant_drifts'',
               PInt (int (length (filter (\<lambda>d. \<bar>d\<bar> > drift_threshold a) drifts)))) ]
        in Inr (Some (dict_update (dict_update results (calculate_drift_percentiles drifts))
                        (calculate_latency_percentiles latencies))))))))"

text \<open>One record of the list \<open>detect_price_anomalies\<close> returns.\<close>

record Anomaly =
  an_timestamp :: real
  an_output_amount :: int
  z_score :: npfloat
  deviation_pct :: npfloat
  an_latency_ms :: real

text \<open>The z-score of one sample, as the loop computes it: a numpy division by the
  standard deviation, with no test of the divisor.\<close>

definition z_score_of :: "real \<Rightarrow> real \<Rightarrow> QuoteData \<Rightarrow> npfloat" where
  "z_score_of mean_amount std_amount quote =
     np_div (Fin \<bar>real_of_int (output_amount quote) - mean_amount\<bar>) (Fin std_amount)"

fun anomaly_loop :: "real \<Rightarrow> real \<Rightarrow> real \<Rightarrow> QuoteData list \<Rightarrow> Anomaly list" where
  "anomaly_loop mean_amount std_amount z_threshold [] = []"
| "anomaly_loop mean_amount std_amount z_threshold (quote # rest) =
     (let z = z_score_of mean_amount std_amount quote in
      if np_gt z z_threshold
      then \<lparr> an_timestamp = timestamp quote,
             an_output_amount = output_amount quote,
             z_score = z,
             deviation_pct =
               np_mul (np_div (Fin (real_of_int (output_amount quote) - mean_amount))
                         (Fin mean_amount)) (Fin 100),
             an_latency_ms = latency quote * 1000 \<rparr>
           # anomaly_loop mean_amount std_amount z_threshold rest
      else anomaly_loop mean_amount std_amount z_threshold rest)"

definition detect_price_anomalies :: "QuoteData list \<Rightarrow> real \<Rightarrow> Anomaly list" where
  "detect_price_anomalies quotes z_threshold =
     (let successful_quotes = filter success quotes in
      if length successful_quotes < 10 then []
      else let output_amounts = map (\<lambda>q. real_of_int (output_amount q)) successful_quotes;
               mean_amount = np_mean output_amounts;
               std_amount = np_std output_amounts
           in anomaly_loop mean_amount std_amount z_threshold successful_quotes)"

section \<open>quote_tracker.py: the front-running simulator\<close>

text \<open>What one detection prints: timing advantage, price drift, potential profit and the
  timestamp of the current sample (before formatting).\<close>

record Opportunity =
  timing_advantage :: real
  price_drift :: real
  profit_potential :: real
  opp_timestamp :: real

text \<open>Python's \<open>xs[-n:]\<close> for \<open>n > 0\<close>: the last \<open>n\<close> elements, all of them when the list
  is shorter.\<close>

definition py_last :: "nat \<Rightarrow> 'a list \<Rightarrow> 'a list" where
  "py_last n xs = drop (length xs - n) xs"

text \<open>
  Whether a pair is an opportunity is decided by comparing floats with thresholds, and
  a rounding error of the last digit can decide it. For the detection rule the float
  operations of the host are therefore left open: the subtraction of two floats, the
  true division of two integers, the product of two numbers, and the value of a decimal
  literal. \<open>exact_ops\<close> is the arithmetic of the reals; the float64 arithmetic of the
  interpreter is another instance.
\<close>

record float_ops =
  fsub :: "real \<Rightarrow> real \<Rightarrow> real"
  fdiv :: "real \<Rightarrow> real \<Rightarrow> real"
  fmul :: "real \<Rightarrow> real \<Rightarrow> real"
  flit :: "real \<Rightarrow> real"

definition exact_ops :: float_ops where
  "exact_ops = \<lparr> fsub = (\<lambda>x y. x - y), fdiv = (\<lambda>x y. x / y), fmul = (\<lambda>x y. x * y),
                 flit = (\<lambda>x. x) \<rparr>"

definition py_truediv_f :: "float_ops \<Rightarrow> real \<Rightarrow> real \<Rightarrow> py_error + real" where
  "py_truediv_f ops a b = (if b = 0 then Inl ZeroDivisionError else Inr (fdiv ops a b))"

text \<open>\<open>calculate_drift\<close> of utils.py over such an arithmetic.\<close>

definition calculate_drift_f :: "float_ops \<Rightarrow> int \<Rightarrow> int \<Rightarrow> py_error + real" where
  "calculate_drift_f ops previous_amount current_amount =
     (if previous_amount = 0 then Inr 0
      else then_res
             (py_truediv_f ops (real_of_int (current_amount - previous_amount))
                (real_of_int previous_amount))
             (\<lambda>r. Inr (fmul ops r 100)))"

text \<open>\<open>DataAnalyzer.__init__\<close>, \<open>analyze_frontrun_opportunities\<close> and its loop over such
  an arithmetic.\<close>

definition DataAnalyzer_init :: "float_ops \<Rightarrow> DataAnalyzer" where
  "DataAnalyzer_init ops =
     \<lparr> drift_threshold = flit ops 0.01, latency_advantage_threshold = flit ops 0.05 \<rparr>"

fun frontrun_loop_f ::
  "float_ops \<Rightarrow> DataAnalyzer \<Rightarrow> nat \<Rightarrow> QuoteData list \<Rightarrow> py_error + nat" where
  "frontrun_loop_f ops a opportunities (previous # current # rest) =
     (let timing_adv = fsub ops (latency previous) (latency current) in
      then_res (calculate_drift_f ops (output_amount previous) (output_amount current))
        (\<lambda>drift.
           frontrun_loop_f ops a
             (if timing_adv > latency_advantage_threshold a \<and> \<bar>drift\<bar> > drift_threshold a
              then opportunities + 1 else opportunities)
             (current # rest)))"
| "frontrun_loop_f ops a opportunities _ = Inr opportunities"

definition analyze_frontrun_opportunities_f ::
  "float_ops \<Rightarrow> DataAnalyzer \<Rightarrow> QuoteData list \<Rightarrow> py_error + nat" where
  "analyze_frontrun_opportunities_f ops a quotes = frontrun_loop_f ops a 0 quotes"

text \<open>The inner loop of \<open>front_running_simulator\<close>: one report per detected pair, in
  the order of the window.\<close>

fun simulator_loop ::
  "float_ops \<Rightarrow> Config \<Rightarrow> QuoteData list \<Rightarrow> py_error + Opportunity list" where
  "simulator_loop ops cfg (previous # current # rest) =
     (let timing_adv = fsub ops (latency previous) (latency current) in
      then_res (calculate_drift_f ops (output_amount previous) (output_amount current))
        (\<lambda>drift.
           then_res (simulator_loop ops cfg (current # rest))
             (\<lambda>later.
                Inr (if timing_adv > flit ops 0.05 \<and> \<bar>drift\<bar> > flit ops 0.01
                     then \<lparr> timing_advantage = timing_adv, price_drift = drift,
                            profit_potential = fmul ops \<bar>drift\<bar> (real_of_int (amount cfg)),
                            opp_timestamp = timestamp current \<rparr> # later
                     else later))))"
| "simulator_loop ops cfg _ = Inr []"

text \<open>One pass of \<open>front_running_simulator\<close> after its sleep: nothing is scanned with
  fewer than 10 samples, or with fewer than 5 successful ones among the last 20.\<close>

definition front_running_scan ::
  "float_ops \<Rightarrow> Config \<Rightarrow> QuoteData list \<Rightarrow> py_error + Opportunity list" where
  "front_running_scan ops cfg quotes =
     (if length quotes < 10 then Inr []
      else let recent_quotes = filter success (py_last 20 quotes) in
           if length recent_quotes < 5 then Inr []
           else simulator_loop ops cfg recent_quotes)"

section \<open>quote_tracker.py: the CSV export\<close>




section \<open>web_app.py: the bounded list of latest quotes\<close>

text \<open>The body of \<open>demo_worker_wrapper\<close> and \<open>live_worker_wrapper\<close> between two
  suspension points: append the new sample, then keep the last 500 if there are more than
  1000. No \<open>await\<close> stands between the two statements, so on the event loop they run as
  one step.\<close>

definition worker_append :: "QuoteData list \<Rightarrow> QuoteData \<Rightarrow> QuoteData list" where
  "worker_append latest_quotes quote =
     (let appended = latest_quotes @ [quote] in
      if length appended > 1000 then py_last 500 appended else appended)"

section \<open>Notions used to state the properties\<close>

text \<open>The drift of the specification's data model,
  \<open>(current - previous) / previous * 100\<close>; it is meant for a non-zero previous amount.\<close>

definition spec_drift :: "int \<Rightarrow> int \<Rightarrow> real" where
  "spec_drift previous_amount current_amount =
     real_of_int (current_amount - previous_amount) / real_of_int previous_amount * 100"

text \<open>The number \<open>calculate_drift\<close> returns: the drift of the specification, and 0 by
  convention after a zero amount.\<close>

definition drift_value :: "int \<Rightarrow> int \<Rightarrow> real" where
  "drift_value previous_amount current_amount =
     (if previous_amount = 0 then 0 else spec_drift previous_amount current_amount)"


text \<open>The detection rule of the specification for a consecutive pair, over a float
  arithmetic: the timing advantage, the price drift (0.0 after a zero amount, as
  \<open>calculate_drift\<close> has it), the test against the two thresholds, and the event
  reported for a detected pair.\<close>

definition pair_timing_advantage :: "float_ops \<Rightarrow> QuoteData \<Rightarrow> QuoteData \<Rightarrow> real" where
  "pair_timing_advantage ops previous current = fsub ops (latency previous) (latency current)"

definition pair_drift :: "float_ops \<Rightarrow> QuoteData \<Rightarrow> QuoteData \<Rightarrow> real" where
  "pair_drift ops previous current =
     (if output_amount previous = 0 then 0
      else fmul ops
             (fdiv ops (real_of_int (output_amount current - output_amount previous))
                (real_of_int (output_amount previous))) 100)"

definition is_opportunity ::
  "float_ops \<Rightarrow> real \<Rightarrow> real \<Rightarrow> QuoteData \<times> QuoteData \<Rightarrow> bool" where
  "is_opportunity ops timing_threshold drift_thr pair =
     (pair_timing_advantage ops (fst pair) (snd pair) > timing_threshold
      \<and> \<bar>pair_drift ops (fst pair) (snd pair)\<bar> > drift_thr)"

definition opportunity_of :: "float_ops \<Rightarrow> Config \<Rightarrow> QuoteData \<times> QuoteData \<Rightarrow> Opportunity" where
  "opportunity_of ops cfg pair =
     \<lparr> timing_advantage = pair_timing_advantage ops (fst pair) (snd pair),
       price_drift = pair_drift ops (fst pair) (snd pair),
       profit_potential =
         fmul ops \<bar>pair_drift ops (fst pair) (snd pair)\<bar> (real_of_int (amount cfg)),
       opp_timestamp = timestamp (snd pair) \<rparr>"

text \<open>An arithmetic whose results are within one part in a thousand of the exact ones
  (float64 is within one part in \<open>2 ^ 53\<close>).\<close>

definition accurate :: "float_ops \<Rightarrow> bool" where
  "accurate ops =
     ((\<forall>x y. \<bar>fsub ops x y - (x - y)\<bar> \<le> \<bar>x - y\<bar> / 1000)
      \<and> (\<forall>x y. \<bar>fdiv ops x y - x / y\<bar> \<le> \<bar>x / y\<bar> / 1000)
      \<and> (\<forall>x y. \<bar>fmul ops x y - x * y\<bar> \<le> \<bar>x * y\<bar> / 1000)
      \<and> (\<forall>x. \<bar>flit ops x - x\<bar> \<le> \<bar>x\<bar> / 1000))"

section \<open>Configuration\<close>

lemma then_res_Inr [simp]: "then_res (Inr v) f = f v"
  by (simp add: then_res_def)

lemma then_res_Inl [simp]: "then_res (Inl e) f = Inl e"
  by (simp add: then_res_def)

lemma py_truediv_nonzero: "b \<noteq> 0 \<Longrightarrow> py_truediv a b = Inr (a / b)"
  by (simp add: py_truediv_def)

text \<open>
  Claim C7, as stated: construction fails exactly when \<open>F \<le> 0\<close>, \<open>W \<le> 0\<close>,
  \<open>amount \<le> 0\<close>, \<open>slippage < 0\<close> or injected latency \<open>< 0\<close>. The default
  configuration with \<open>duration = 0\<close> meets none of the five conditions and is still
  rejected: the source also checks the run duration.
\<close>

theorem C7_duration_counterexample:
  "Config_new (default_config\<lparr>duration := 0\<rparr>)
     = Inl (ValueError ''Duration must be greater than 0'')
   \<and> \<not> (frequency (default_config\<lparr>duration := 0\<rparr>) \<le> 0
        \<or> concurrent_requests (default_config\<lparr>duration := 0\<rparr>) \<le> 0
        \<or> amount (default_config\<lparr>duration := 0\<rparr>) \<le> 0
        \<or> slippage_bps (default_config\<lparr>duration := 0\<rparr>) < 0
        \<or> latency_injection (default_config\<lparr>duration := 0\<rparr>) < 0)"
  by (simp add: Config_new_def post_init_def default_config_def)

text \<open>
  Claim C7, amended: constructing a configuration raises (a \<open>ValueError\<close>, the
  configuration error of the source) if and only if \<open>F \<le> 0\<close>, \<open>duration \<le> 0\<close>,
  \<open>W \<le> 0\<close>, \<open>amount \<le> 0\<close>, \<open>slippage < 0\<close> or injected latency \<open>< 0\<close>; when
  none of the six holds, construction returns the configuration unchanged.
\<close>

theorem C7_config_validation:
  "((\<exists>msg. Config_new c = Inl (ValueError msg)) \<longleftrightarrow>
      (frequency c \<le> 0 \<or> duration c \<le> 0 \<or> concurrent_requests c \<le> 0 \<or> amount c \<le> 0
       \<or> slippage_bps c < 0 \<or> latency_injection c < 0))
   \<and> (\<not> (frequency c \<le> 0 \<or> duration c \<le> 0 \<or> concurrent_requests c \<le> 0 \<or> amount c \<le> 0
       \<or> slippage_bps c < 0 \<or> latency_injection c < 0) \<longrightarrow> Config_new c = Inr c)"
  by (simp add: Config_new_def post_init_def)

theorem C7_config_validation_witness:
  "Config_new default_config = Inr default_config
   \<and> (\<exists>msg. Config_new (default_config\<lparr>slippage_bps := - 1\<rparr>) = Inl (ValueError msg))"
proof -
  have ok: "\<not> (frequency default_config \<le> 0 \<or> duration default_config \<le> 0
      \<or> concurrent_requests default_config \<le> 0 \<or> amount default_config \<le> 0
      \<or> slippage_bps default_config < 0 \<or> latency_injection default_config < 0)"
    by (simp add: default_config_def)
  have bad: "slippage_bps (default_config\<lparr>slippage_bps := - 1\<rparr>) < 0"
    by simp
  from ok have "Config_new default_config = Inr default_config"
    using C7_config_validation [of default_config] by blast
  moreover from bad
  have "\<exists>msg. Config_new (default_config\<lparr>slippage_bps := - 1\<rparr>) = Inl (ValueError msg)"
    using C7_config_validation [of "default_config\<lparr>slippage_bps := - 1\<rparr>"] by blast
  ultimately show ?thesis by simp
qed

text \<open>
  Claim C9: for every aggregate frequency \<open>F > 0\<close> and worker count \<open>W > 0\<close>, the
  interval of each worker is \<open>W / F\<close> seconds, both as \<open>Config.worker_interval\<close> computes
  it and as the worker loop computes it for itself; neither division raises.
\<close>

theorem C9_worker_interval:
  assumes "0 < frequency c" and "0 < concurrent_requests c"
  shows "worker_interval c = Inr (real_of_int (concurrent_requests c) / frequency c)
       \<and> quote_worker_interval c = Inr (real_of_int (concurrent_requests c) / frequency c)"
  using assms
  by (simp add: worker_interval_def quote_worker_interval_def requests_per_worker_def
      py_truediv_def)

theorem C9_worker_interval_witness:
  "worker_interval default_config = Inr 2 \<and> quote_worker_interval default_config = Inr 2"
proof -
  have f: "0 < frequency default_config" by (simp add: default_config_def)
  have w: "0 < concurrent_requests default_config" by (simp add: default_config_def)
  show ?thesis
    using C9_worker_interval [OF f w] by (simp add: default_config_def)
qed

section \<open>Drift series\<close>

lemma calculate_drift_value: "calculate_drift p c = Inr (drift_value p c)"
  by (simp add: calculate_drift_def py_truediv_def drift_value_def spec_drift_def)

lemma drift_loop_map2:
  "drift_loop qs =
     Inr (map2 (\<lambda>p c. drift_value (output_amount p) (output_amount c)) qs (tl qs))"
proof (induction qs rule: drift_loop.induct)
  case (1 previous current rest)
  then show ?case by (simp add: calculate_drift_value)
qed simp_all

lemma drift_loop_total: "\<exists>ds. drift_loop qs = Inr ds \<and> length ds = length qs - 1"
  by (simp add: drift_loop_map2)

text \<open>
  Claim C2, as stated: a pair whose first amount is 0 is skipped, nothing is emitted
  for it. A 200 response without \<open>outAmount\<close> is a successful sample of amount 0; for
  the two successful samples of amounts 0 and 5 the series is not empty: it holds the
  conventional value 0.0.
\<close>

theorem C2_zero_previous_counterexample:
  "drift_loop (filter success [quote_ok 0 (1 / 10) 0, quote_ok 1 (1 / 10) 5]) = Inr [0]"
  by (simp add: quote_ok_def calculate_drift_value drift_value_def)

text \<open>
  Claim C2, amended: the drift series of \<open>analyze_quotes\<close> has exactly one value for
  every pair of consecutive successful samples \<open>(i, i + 1)\<close> in log order, namely
  \<open>(amount (i + 1) - amount i) / amount i * 100\<close> when \<open>amount i \<noteq> 0\<close> and the
  conventional value 0.0 when \<open>amount i = 0\<close>; no pair is skipped, and computing the
  series never raises.
\<close>

theorem C2_drift_series:
  "\<exists>drifts. drift_loop (filter success quotes) = Inr drifts
     \<and> length drifts = length (filter success quotes) - 1
     \<and> (\<forall>i. Suc i < length (filter success quotes) \<longrightarrow>
           drifts ! i =
             (if output_amount (filter success quotes ! i) = 0 then 0
              else spec_drift (output_amount (filter success quotes ! i))
                     (output_amount (filter success quotes ! Suc i))))"
  by (simp add: drift_loop_map2 nth_tl drift_value_def)

theorem C2_drift_series_witness:
  "\<exists>drifts. drift_loop (filter success
       [quote_ok 0 (1 / 10) 0, quote_failed 1 (1 / 10) ''HTTP 429: busy'',
        quote_ok 2 (1 / 10) 5, quote_ok 3 (1 / 10) 10]) = Inr drifts
     \<and> length drifts = 2 \<and> drifts ! 0 = 0 \<and> drifts ! 1 = 100"
proof -
  let ?quotes = "[quote_ok 0 (1 / 10) 0, quote_failed 1 (1 / 10) ''HTTP 429: busy'',
        quote_ok 2 (1 / 10) 5, quote_ok 3 (1 / 10) 10]"
  have sq: "filter success ?quotes
              = [quote_ok 0 (1 / 10) 0, quote_ok 2 (1 / 10) 5, quote_ok 3 (1 / 10) 10]"
    by (simp add: quote_ok_def quote_failed_def)
  from C2_drift_series [of ?quotes] obtain drifts where
    run: "drift_loop (filter success ?quotes) = Inr drifts" and
    len: "length drifts = length (filter success ?quotes) - 1" and
    val: "\<forall>i. Suc i < length (filter success ?quotes) \<longrightarrow>
           drifts ! i =
             (if output_amount (filter success ?quotes ! i) = 0 then 0
              else spec_drift (output_amount (filter success ?quotes ! i))
                     (output_amount (filter success ?quotes ! Suc i)))"
    by blast
  from len have l: "length drifts = 2" unfolding sq by simp
  from val [rule_format, of 0] have d0: "drifts ! 0 = 0"
    unfolding sq by (simp add: quote_ok_def)
  from val [rule_format, of 1] have d1: "drifts ! 1 = 100"
    unfolding sq by (simp add: quote_ok_def spec_drift_def)
  from run l d0 d1 show ?thesis by blast
qed

section \<open>Front-running opportunities\<close>

lemma frontrun_loop_count:
  "frontrun_loop a n qs =
     Inr (n + length (filter
            (\<lambda>(p, c). latency p - latency c > latency_advantage_threshold a
                \<and> \<bar>drift_value (output_amount p) (output_amount c)\<bar> > drift_threshold a)
            (zip qs (tl qs))))"
proof (induction a n qs rule: frontrun_loop.induct)
  case (1 a opportunities previous current rest)
  then show ?case by (simp add: calculate_drift_value Let_def)
qed simp_all

lemma calculate_drift_f_value:
  "calculate_drift_f ops (output_amount p) (output_amount c) = Inr (pair_drift ops p c)"
  by (simp add: calculate_drift_f_def py_truediv_f_def pair_drift_def)

lemma frontrun_loop_f_count:
  "frontrun_loop_f ops a n qs =
     Inr (n + length (filter
            (is_opportunity ops (latency_advantage_threshold a) (drift_threshold a))
            (zip qs (tl qs))))"
proof (induction ops a n qs rule: frontrun_loop_f.induct)
  case (1 ops a opportunities previous current rest)
  then show ?case
    by (simp add: calculate_drift_f_value Let_def is_opportunity_def pair_timing_advantage_def)
qed simp_all

text \<open>The count that \<open>analyze_quotes\<close> reports is the instance for the arithmetic of
  the reals.\<close>

lemma analyze_frontrun_opportunities_exact:
  "analyze_frontrun_opportunities a qs = analyze_frontrun_opportunities_f exact_ops a qs"
proof -
  have "(\<lambda>(p, c). latency p - latency c > latency_advantage_threshold a
            \<and> \<bar>drift_value (output_amount p) (output_amount c)\<bar> > drift_threshold a)
        = is_opportunity exact_ops (latency_advantage_threshold a) (drift_threshold a)"
    by (auto simp: fun_eq_iff is_opportunity_def pair_timing_advantage_def pair_drift_def
        exact_ops_def drift_value_def spec_drift_def)
  then show ?thesis
    by (simp add: analyze_frontrun_opportunities_def analyze_frontrun_opportunities_f_def
        frontrun_loop_count frontrun_loop_f_count)
qed

lemma simulator_loop_value:
  "simulator_loop ops cfg qs =
     Inr (map (opportunity_of ops cfg)
            (filter (is_opportunity ops (flit ops 0.05) (flit ops 0.01)) (zip qs (tl qs))))"
proof (induction ops cfg qs rule: simulator_loop.induct)
  case (1 ops cfg previous current rest)
  then show ?case
    by (simp add: calculate_drift_f_value Let_def is_opportunity_def opportunity_of_def
        pair_timing_advantage_def)
qed simp_all

lemma exact_accurate: "accurate exact_ops"
  by (simp add: accurate_def exact_ops_def)

lemma example_robust:
  assumes acc: "accurate ops"
    and lp: "\<bar>latency previous - 3 / 10\<bar> \<le> 1 / 10000"
    and lc: "\<bar>latency current - 1 / 10\<bar> \<le> 1 / 10000"
    and ap: "output_amount previous = 1000000" and ac: "output_amount current = 990000"
  shows "is_opportunity ops (flit ops 0.05) (flit ops 0.01) (previous, current)"
proof -
  from acc have sub: "\<bar>fsub ops x y - (x - y)\<bar> \<le> \<bar>x - y\<bar> / 1000"
    and quo: "\<bar>fdiv ops x y - x / y\<bar> \<le> \<bar>x / y\<bar> / 1000"
    and mul: "\<bar>fmul ops x y - x * y\<bar> \<le> \<bar>x * y\<bar> / 1000"
    and lit: "\<bar>flit ops x - x\<bar> \<le> \<bar>x\<bar> / 1000" for x y
    by (simp_all add: accurate_def)
  define t5 where "t5 = flit ops 0.05"
  define t1 where "t1 = flit ops 0.01"
  define d where "d = latency previous - latency current"
  define ta where "ta = fsub ops (latency previous) (latency current)"
  define q where "q = fdiv ops (- 10000) 1000000"
  define m where "m = fmul ops q 100"
  have "\<bar>t5 - 1 / 20\<bar> \<le> 1 / 20000"
    using lit [of "0.05"] by (simp add: t5_def)
  then have t5: "t5 \<le> 3 / 50" by linarith
  have "\<bar>t1 - 1 / 100\<bar> \<le> 1 / 100000"
    using lit [of "0.01"] by (simp add: t1_def)
  then have t1: "t1 \<le> 1 / 50" by linarith
  from lp lc have d: "19 / 100 \<le> d \<and> d \<le> 21 / 100" unfolding d_def by linarith
  have "\<bar>ta - d\<bar> \<le> \<bar>d\<bar> / 1000" unfolding ta_def d_def by (rule sub)
  with d have ta: "18 / 100 \<le> ta" by linarith
  have "\<bar>q - (- 1 / 100)\<bar> \<le> 1 / 100000"
    using quo [of "- 10000" 1000000] by (simp add: q_def)
  then have qb: "- 2 / 100 \<le> q \<and> q \<le> - 9 / 1000" by linarith
  have "\<bar>m - q * 100\<bar> \<le> \<bar>q * 100\<bar> / 1000" unfolding m_def by (rule mul)
  with qb have "m \<le> - 8 / 10" by linarith
  then have dr: "8 / 10 \<le> \<bar>m\<bar>" by linarith
  have "t5 < ta" using t5 ta by linarith
  moreover have "t1 < \<bar>m\<bar>" using t1 dr by linarith
  ultimately show ?thesis
    by (simp add: is_opportunity_def pair_timing_advantage_def pair_drift_def ap ac
        q_def m_def ta_def t5_def t1_def)
qed


text \<open>
  Claim C4: a consecutive pair (previous, current) is an opportunity exactly when the
  timing advantage \<open>previous.latency - current.latency\<close> exceeds the timing threshold
  and the absolute drift from previous to current exceeds the drift threshold, the
  differences, quotients and products being those of the float arithmetic in use.
  The analyzer counts exactly these pairs of the list it is given, with its own
  thresholds, which a new analyzer sets to the literals 0.05 and 0.01. One pass of the
  simulator scans nothing with fewer than 10 samples or fewer than 5 successful ones
  among the last 20, and otherwise reports exactly these pairs of the successful recent
  samples, in order, with the literals 0.05 and 0.01 as thresholds. For the pair with
  latencies 0.30 and 0.10 and amounts 1,000,000 and 990,000 the rule finds exactly one
  opportunity under every arithmetic accurate to one part in a thousand (also when the
  latencies are only within 0.0001 of 0.30 and 0.10); in exact arithmetic its timing
  advantage is 0.20 and its price drift \<open>-1.0\<close>.
\<close>

theorem C4_opportunity_rule:
  "analyze_frontrun_opportunities_f ops a [previous, current] =
     Inr (if is_opportunity ops (latency_advantage_threshold a) (drift_threshold a)
               (previous, current)
          then 1 else 0)
   \<and> analyze_frontrun_opportunities_f ops a quotes =
       Inr (length (filter
              (is_opportunity ops (latency_advantage_threshold a) (drift_threshold a))
              (zip quotes (tl quotes))))
   \<and> front_running_scan ops cfg quotes =
       Inr (if length quotes < 10
               \<or> length (filter success (drop (length quotes - 20) quotes)) < 5
            then []
            else map (opportunity_of ops cfg)
                   (filter (is_opportunity ops (flit ops 0.05) (flit ops 0.01))
                      (zip (filter success (drop (length quotes - 20) quotes))
                         (tl (filter success (drop (length quotes - 20) quotes))))))
   \<and> latency_advantage_threshold (DataAnalyzer_init ops) = flit ops 0.05
   \<and> drift_threshold (DataAnalyzer_init ops) = flit ops 0.01
   \<and> (accurate ops
        \<and> \<bar>latency previous - 3 / 10\<bar> \<le> 1 / 10000 \<and> \<bar>latency current - 1 / 10\<bar> \<le> 1 / 10000
        \<and> output_amount previous = 1000000 \<and> output_amount current = 990000 \<longrightarrow>
      analyze_frontrun_opportunities_f ops (DataAnalyzer_init ops) [previous, current] = Inr 1
      \<and> simulator_loop ops cfg [previous, current]
          = Inr [opportunity_of ops cfg (previous, current)])
   \<and> (latency previous = 0.30 \<and> latency current = 0.10
        \<and> output_amount previous = 1000000 \<and> output_amount current = 990000 \<longrightarrow>
      opportunity_of exact_ops cfg (previous, current) =
        \<lparr> timing_advantage = 0.20, price_drift = - 1,
          profit_potential = real_of_int (amount cfg),
          opp_timestamp = timestamp current \<rparr>)"
proof -
  have count: "analyze_frontrun_opportunities_f ops a qs =
       Inr (length (filter
              (is_opportunity ops (latency_advantage_threshold a) (drift_threshold a))
              (zip qs (tl qs))))" for a qs
    by (simp add: analyze_frontrun_opportunities_f_def frontrun_loop_f_count)
  have pair: "analyze_frontrun_opportunities_f ops a [previous, current] =
     Inr (if is_opportunity ops (latency_advantage_threshold a) (drift_threshold a)
               (previous, current)
          then 1 else 0)" for a
    by (simp add: count)
  have scan: "front_running_scan ops cfg quotes =
       Inr (if length quotes < 10
               \<or> length (filter success (drop (length quotes - 20) quotes)) < 5
            then []
            else map (opportunity_of ops cfg)
                   (filter (is_opportunity ops (flit ops 0.05) (flit ops 0.01))
                      (zip (filter success (drop (length quotes - 20) quotes))
                         (tl (filter success (drop (length quotes - 20) quotes))))))"
    by (simp add: front_running_scan_def py_last_def Let_def simulator_loop_value)
  have defaults: "latency_advantage_threshold (DataAnalyzer_init ops) = flit ops 0.05"
    "drift_threshold (DataAnalyzer_init ops) = flit ops 0.01"
    by (simp_all add: DataAnalyzer_init_def)
  have robust: "analyze_frontrun_opportunities_f ops (DataAnalyzer_init ops) [previous, current]
        = Inr 1
      \<and> simulator_loop ops cfg [previous, current]
          = Inr [opportunity_of ops cfg (previous, current)]"
    if h: "accurate ops
        \<and> \<bar>latency previous - 3 / 10\<bar> \<le> 1 / 10000 \<and> \<bar>latency current - 1 / 10\<bar> \<le> 1 / 10000
        \<and> output_amount previous = 1000000 \<and> output_amount current = 990000"
  proof -
    from h have "is_opportunity ops (flit ops 0.05) (flit ops 0.01) (previous, current)"
      by (intro example_robust) simp_all
    then show ?thesis
      by (simp add: pair defaults simulator_loop_value)
  qed
  have exact: "opportunity_of exact_ops cfg (previous, current) =
        \<lparr> timing_advantage = 0.20, price_drift = - 1,
          profit_potential = real_of_int (amount cfg),
          opp_timestamp = timestamp current \<rparr>"
    if "latency previous = 0.30 \<and> latency current = 0.10
        \<and> output_amount previous = 1000000 \<and> output_amount current = 990000"
    using that
    by (simp add: opportunity_of_def pair_timing_advantage_def pair_drift_def exact_ops_def)
  from pair count scan defaults robust exact show ?thesis by blast
qed

theorem C4_opportunity_rule_witness:
  "analyze_frontrun_opportunities_f exact_ops (DataAnalyzer_init exact_ops)
     [quote_ok 10 0.30 1000000, quote_ok 11 0.10 990000] = Inr 1
   \<and> front_running_scan exact_ops default_config
       [quote_ok 1 0.10 1000000, quote_ok 2 0.10 1000000, quote_ok 3 0.10 1000000,
        quote_failed 4 0.10 ''HTTP 429: busy'', quote_ok 5 0.10 1000000,
        quote_ok 6 0.10 1000000, quote_ok 7 0.10 1000000, quote_ok 8 0.10 1000000,
        quote_ok 10 0.30 1000000, quote_ok 11 0.10 990000] =
       Inr [\<lparr> timing_advantage = 0.20, price_drift = - 1, profit_potential = 1000000,
              opp_timestamp = 11 \<rparr>]
   \<and> front_running_scan exact_ops default_config
       [quote_ok 10 0.30 1000000, quote_ok 11 0.10 990000] = Inr []"
proof -
  let ?p = "quote_ok 10 0.30 1000000"
  let ?c = "quote_ok 11 0.10 990000"
  let ?window = "[quote_ok 1 0.10 1000000, quote_ok 2 0.10 1000000, quote_ok 3 0.10 1000000,
        quote_failed 4 0.10 ''HTTP 429: busy'', quote_ok 5 0.10 1000000,
        quote_ok 6 0.10 1000000, quote_ok 7 0.10 1000000, quote_ok 8 0.10 1000000, ?p, ?c]"
  have acc: "accurate exact_ops" by (simp add: accurate_def exact_ops_def)
  have h: "accurate exact_ops
        \<and> \<bar>latency ?p - 3 / 10\<bar> \<le> 1 / 10000 \<and> \<bar>latency ?c - 1 / 10\<bar> \<le> 1 / 10000
        \<and> output_amount ?p = 1000000 \<and> output_amount ?c = 990000"
    using acc by (simp add: quote_ok_def)
  have e: "latency ?p = 0.30 \<and> latency ?c = 0.10
        \<and> output_amount ?p = 1000000 \<and> output_amount ?c = 990000"
    by (simp add: quote_ok_def)
  from h C4_opportunity_rule [of exact_ops "DataAnalyzer_init exact_ops" ?p ?c "[]" default_config]
  have a: "analyze_frontrun_opportunities_f exact_ops (DataAnalyzer_init exact_ops) [?p, ?c]
             = Inr 1"
    by blast
  from C4_opportunity_rule [of exact_ops "DataAnalyzer_init exact_ops" ?p ?c ?window
      default_config]
  have "front_running_scan exact_ops default_config ?window =
       Inr (if length ?window < 10
               \<or> length (filter success (drop (length ?window - 20) ?window)) < 5
            then []
            else map (opportunity_of exact_ops default_config)
                   (filter (is_opportunity exact_ops (flit exact_ops 0.05) (flit exact_ops 0.01))
                      (zip (filter success (drop (length ?window - 20) ?window))
                         (tl (filter success (drop (length ?window - 20) ?window))))))"
    by blast
  then have b: "front_running_scan exact_ops default_config ?window =
       Inr [\<lparr> timing_advantage = 0.20, price_drift = - 1, profit_potential = 1000000,
              opp_timestamp = 11 \<rparr>]"
    by (simp add: quote_ok_def quote_failed_def is_opportunity_def opportunity_of_def
        pair_timing_advantage_def pair_drift_def exact_ops_def default_config_def)
  from C4_opportunity_rule [of exact_ops "DataAnalyzer_init exact_ops" ?p ?c "[?p, ?c]"
      default_config]
  have c: "front_running_scan exact_ops default_config [?p, ?c] = Inr []"
    by simp
  from a b c show ?thesis by blast
qed

section \<open>Retention of the latest quotes\<close>

lemma worker_append_bounded:
  "length latest_quotes \<le> 1000 \<Longrightarrow> length (worker_append latest_quotes q) \<le> 1000"
  by (simp add: worker_append_def py_last_def Let_def)

lemma foldl_worker_append_bounded:
  "length latest_quotes \<le> 1000 \<Longrightarrow> length (foldl worker_append latest_quotes qs) \<le> 1000"
  by (induction qs arbitrary: latest_quotes) (simp_all add: worker_append_bounded)

text \<open>
  Claim C6: when appending a sample makes the list longer than 1000, the worker at
  once keeps exactly its last 500 entries (the new sample among them); an append to a
  list of at most 1000 entries leaves at most 1000; so after any sequence of worker
  iterations, starting from the empty list, the list holds at most 1000 samples.
\<close>

theorem C6_retention:
  "(1000 < length (latest_quotes @ [q]) \<longrightarrow>
      length (worker_append latest_quotes q) = 500
      \<and> worker_append latest_quotes q
          = drop (length (latest_quotes @ [q]) - 500) (latest_quotes @ [q])
      \<and> (\<exists>older. latest_quotes @ [q] = older @ worker_append latest_quotes q)
      \<and> last (worker_append latest_quotes q) = q)
   \<and> (length (latest_quotes @ [q]) \<le> 1000 \<longrightarrow>
        worker_append latest_quotes q = latest_quotes @ [q])
   \<and> (length latest_quotes \<le> 1000 \<longrightarrow> length (worker_append latest_quotes q) \<le> 1000)
   \<and> length (foldl worker_append [] qs) \<le> 1000"
proof -
  have trim: "length (worker_append latest_quotes q) = 500
      \<and> worker_append latest_quotes q
          = drop (length (latest_quotes @ [q]) - 500) (latest_quotes @ [q])
      \<and> (\<exists>older. latest_quotes @ [q] = older @ worker_append latest_quotes q)
      \<and> last (worker_append latest_quotes q) = q"
    if big: "1000 < length (latest_quotes @ [q])"
  proof -
    from big have w: "worker_append latest_quotes q
          = drop (length (latest_quotes @ [q]) - 500) (latest_quotes @ [q])"
      by (simp add: worker_append_def py_last_def Let_def)
    from big have l: "length (worker_append latest_quotes q) = 500"
      unfolding w by simp
    have "latest_quotes @ [q]
            = take (length (latest_quotes @ [q]) - 500) (latest_quotes @ [q])
              @ worker_append latest_quotes q"
      unfolding w by (simp only: append_take_drop_id)
    then have o: "\<exists>older. latest_quotes @ [q] = older @ worker_append latest_quotes q" ..
    from big have "last (worker_append latest_quotes q) = last (latest_quotes @ [q])"
      unfolding w by (intro last_drop) simp
    then have "last (worker_append latest_quotes q) = q" by simp
    with l w o show ?thesis by blast
  qed
  have keep: "worker_append latest_quotes q = latest_quotes @ [q]"
    if "length (latest_quotes @ [q]) \<le> 1000"
    using that by (simp add: worker_append_def Let_def)
  have "length (foldl worker_append [] qs) \<le> 1000"
    by (rule foldl_worker_append_bounded) simp
  with trim keep worker_append_bounded [of latest_quotes q] show ?thesis by blast
qed

theorem C6_retention_witness:
  "length (worker_append (replicate 1000 (quote_ok 0 (1 / 10) 7)) (quote_ok 1 (1 / 10) 8)) = 500
   \<and> last (worker_append (replicate 1000 (quote_ok 0 (1 / 10) 7)) (quote_ok 1 (1 / 10) 8))
       = quote_ok 1 (1 / 10) 8
   \<and> worker_append [] (quote_ok 1 (1 / 10) 8) = [quote_ok 1 (1 / 10) 8]"
proof -
  have big: "1000 < length (replicate 1000 (quote_ok 0 (1 / 10) 7) @ [quote_ok 1 (1 / 10) 8])"
    by simp
  have small: "length ([] @ [quote_ok 1 (1 / 10) 8]) \<le> 1000"
    by simp
  from big C6_retention [of "replicate 1000 (quote_ok 0 (1 / 10) 7)" "quote_ok 1 (1 / 10) 8" "[]"]
  have a: "length (worker_append (replicate 1000 (quote_ok 0 (1 / 10) 7)) (quote_ok 1 (1 / 10) 8)) = 500
   \<and> last (worker_append (replicate 1000 (quote_ok 0 (1 / 10) 7)) (quote_ok 1 (1 / 10) 8))
       = quote_ok 1 (1 / 10) 8"
    by blast
  from small C6_retention [of "[]" "quote_ok 1 (1 / 10) 8" "[]"]
  have b: "worker_append [] (quote_ok 1 (1 / 10) 8) = [quote_ok 1 (1 / 10) 8]"
    by simp
  from a b show ?thesis by blast
qed

section \<open>CSV export\<close>








section \<open>Price anomalies\<close>

lemma anomaly_loop_none:
  "\<forall>q\<in>set qs. \<not> np_gt (z_score_of m s q) zt \<Longrightarrow> anomaly_loop m s zt qs = []"
  by (induction qs) (simp_all add: Let_def)

lemma anomaly_loop_append:
  "anomaly_loop m s zt (xs @ ys) = anomaly_loop m s zt xs @ anomaly_loop m s zt ys"
  by (induction xs) (simp_all add: Let_def)

lemma mean_sample: "np_mean (replicate 20 100 @ [1000]) = 1000 / 7"
  by (simp add: np_mean_def sum_list_replicate)

lemma var_sample: "np_var (replicate 20 100 @ [1000]) = 1800000 / 49"
  by (simp add: np_var_def mean_sample)
     (simp add: np_mean_def sum_list_replicate power2_eq_square)

lemma std_sample: "np_std (replicate 20 100 @ [1000]) = sqrt 1800000 / 7"
proof -
  have "sqrt (1800000 / 49) = sqrt 1800000 / sqrt (7\<^sup>2)"
    by (simp add: real_sqrt_divide)
  then show ?thesis by (simp add: np_std_def var_sample)
qed

lemma sqrt_sample_bounds: "150 < sqrt 1800000" "sqrt 1800000 < 3000"
proof -
  have "sqrt (150\<^sup>2) < sqrt 1800000" by (subst real_sqrt_less_iff) simp
  then show "150 < sqrt 1800000" by simp
  have "sqrt 1800000 < sqrt (3000\<^sup>2)" by (subst real_sqrt_less_iff) simp
  then show "sqrt 1800000 < 3000" by simp
qed

lemma z_sample: "6000 / sqrt 1800000 = sqrt 20"
proof -
  have "sqrt 20 * sqrt 1800000 = sqrt (6000\<^sup>2)"
    by (simp add: real_sqrt_mult [symmetric])
  then have "sqrt 20 * sqrt 1800000 = 6000" by simp
  then show ?thesis by (simp add: field_simps)
qed

lemma sqrt_20_gt_2: "2 < sqrt 20"
proof -
  have "sqrt (2\<^sup>2) < sqrt 20" by (subst real_sqrt_less_iff) simp
  then show ?thesis by simp
qed

text \<open>
  Claim C8: with fewer than 10 successful samples \<open>detect_price_anomalies\<close> returns the
  empty list, whatever the threshold. When the successful amounts are twenty times 100
  followed by 1000, and the threshold is 2.0, it returns exactly one record, for the
  sample of amount 1000 (the last successful one): its z-score is the distance to the
  population mean of all 21 amounts over their population standard deviation, which is
  \<open>sqrt 20\<close>, about 4.47 and above 2.0.
\<close>

theorem C8_detect_anomalies:
  "(length (filter success quotes) < 10 \<longrightarrow> detect_price_anomalies quotes z_threshold = [])
   \<and> (map output_amount (filter success quotes) = replicate 20 100 @ [1000] \<longrightarrow>
        detect_price_anomalies quotes 2 =
          [\<lparr> an_timestamp = timestamp (last (filter success quotes)),
             an_output_amount = 1000,
             z_score = Fin (sqrt 20),
             deviation_pct = Fin 600,
             an_latency_ms = latency (last (filter success quotes)) * 1000 \<rparr>]
        \<and> 2 < sqrt 20
        \<and> z_score_of
             (np_mean (map (\<lambda>q. real_of_int (output_amount q)) (filter success quotes)))
             (np_std (map (\<lambda>q. real_of_int (output_amount q)) (filter success quotes)))
             (last (filter success quotes)) = Fin (sqrt 20))"
proof -
  let ?sq = "filter success quotes"
  let ?amounts = "map (\<lambda>q. real_of_int (output_amount q)) ?sq"
  have few: "detect_price_anomalies quotes z_threshold = []" if "length ?sq < 10"
    using that by (simp add: detect_price_anomalies_def)
  have sample: "detect_price_anomalies quotes 2 =
          [\<lparr> an_timestamp = timestamp (last ?sq), an_output_amount = 1000,
             z_score = Fin (sqrt 20), deviation_pct = Fin 600,
             an_latency_ms = latency (last ?sq) * 1000 \<rparr>]
        \<and> 2 < sqrt 20
        \<and> z_score_of (np_mean ?amounts) (np_std ?amounts) (last ?sq) = Fin (sqrt 20)"
    if amts: "map output_amount ?sq = replicate 20 100 @ [1000]"
  proof -
    from amts obtain xs y where sq: "?sq = xs @ [y]"
      and xs: "map output_amount xs = replicate 20 100" and y: "output_amount y = 1000"
      by (auto simp: map_eq_append_conv)
    have len: "length ?sq = 21"
      using arg_cong [OF amts, of length] by simp
    have "?amounts = map real_of_int (map output_amount ?sq)" by (simp add: comp_def)
    also have "\<dots> = replicate 20 100 @ [1000]" by (simp add: amts)
    finally have amounts: "?amounts = replicate 20 100 @ [1000]" .
    have xs100: "\<forall>q\<in>set xs. output_amount q = 100"
    proof
      fix q assume "q \<in> set xs"
      then have "output_amount q \<in> set (map output_amount xs)" by simp
      then show "output_amount q = 100" unfolding xs by simp
    qed
    have small: "\<forall>q\<in>set xs. \<not> np_gt (z_score_of (1000 / 7) (sqrt 1800000 / 7) q) 2"
      using xs100 sqrt_sample_bounds by (simp add: z_score_of_def field_simps)
    have big: "z_score_of (1000 / 7) (sqrt 1800000 / 7) y = Fin (sqrt 20)"
      using sqrt_sample_bounds by (simp add: z_score_of_def y z_sample)
    have "detect_price_anomalies quotes 2 =
            anomaly_loop (1000 / 7) (sqrt 1800000 / 7) 2 (xs @ [y])"
      using len
      by (simp add: detect_price_anomalies_def Let_def amounts mean_sample std_sample
          sq [symmetric])
    also have "\<dots> = anomaly_loop (1000 / 7) (sqrt 1800000 / 7) 2 [y]"
      using anomaly_loop_none [OF small] by (simp add: anomaly_loop_append)
    also have "\<dots> = [\<lparr> an_timestamp = timestamp y, an_output_amount = 1000,
          z_score = Fin (sqrt 20), deviation_pct = Fin 600,
          an_latency_ms = latency y * 1000 \<rparr>]"
      using sqrt_20_gt_2 by (simp add: Let_def big y)
    finally have res: "detect_price_anomalies quotes 2 =
          [\<lparr> an_timestamp = timestamp (last ?sq), an_output_amount = 1000,
             z_score = Fin (sqrt 20), deviation_pct = Fin 600,
             an_latency_ms = latency (last ?sq) * 1000 \<rparr>]"
      by (simp add: sq)
    have "z_score_of (np_mean ?amounts) (np_std ?amounts) (last ?sq) = Fin (sqrt 20)"
      unfolding amounts mean_sample std_sample using big by (simp add: sq)
    with res sqrt_20_gt_2 show ?thesis by blast
  qed
  from few sample show ?thesis by blast
qed

theorem C8_detect_anomalies_witness:
  "detect_price_anomalies (replicate 9 (quote_ok 0 (1 / 10) 100)) 2 = []
   \<and> detect_price_anomalies
       (replicate 20 (quote_ok 0 (1 / 10) 100)
          @ [quote_failed 1 (1 / 10) ''timeout'', quote_ok 2 (1 / 5) 1000]) 2 =
       [\<lparr> an_timestamp = 2, an_output_amount = 1000, z_score = Fin (sqrt 20),
          deviation_pct = Fin 600, an_latency_ms = 200 \<rparr>]"
proof -
  let ?few = "replicate 9 (quote_ok 0 (1 / 10) 100)"
  let ?quotes = "replicate 20 (quote_ok 0 (1 / 10) 100)
          @ [quote_failed 1 (1 / 10) ''timeout'', quote_ok 2 (1 / 5) 1000]"
  have ok: "success (quote_ok t l a)" "\<not> success (quote_failed t l m)" for t l a m
    by (simp_all add: quote_ok_def quote_failed_def)
  have few: "length (filter success ?few) < 10"
    by (simp add: ok)
  have sq: "filter success ?quotes
              = replicate 20 (quote_ok 0 (1 / 10) 100) @ [quote_ok 2 (1 / 5) 1000]"
    by (simp add: ok)
  have amts: "map output_amount (filter success ?quotes) = replicate 20 100 @ [1000]"
    unfolding sq by (simp add: quote_ok_def)
  have l: "last (filter success ?quotes) = quote_ok 2 (1 / 5) 1000"
    unfolding sq by simp
  have a: "detect_price_anomalies ?few 2 = []"
    using C8_detect_anomalies [of ?few 2] few by blast
  have b: "detect_price_anomalies ?quotes 2 =
          [\<lparr> an_timestamp = timestamp (last (filter success ?quotes)),
             an_output_amount = 1000,
             z_score = Fin (sqrt 20),
             deviation_pct = Fin 600,
             an_latency_ms = latency (last (filter success ?quotes)) * 1000 \<rparr>]"
    using C8_detect_anomalies [of ?quotes 2] amts by blast
  have sel: "timestamp (quote_ok 2 (1 / 5) 1000) = 2"
    "latency (quote_ok 2 (1 / 5) 1000) * 1000 = 200"
    by (simp_all add: quote_ok_def)
  from a b show ?thesis unfolding l sel by blast
qed

section \<open>Latency/price correlation\<close>

lemma correlation_loop_value:
  "correlation_loop qs =
     Inr (map latency (tl qs),
          map2 (\<lambda>p c. \<bar>drift_value (output_amount p) (output_amount c)\<bar>) qs (tl qs))"
proof (induction qs rule: correlation_loop.induct)
  case (1 previous current rest)
  then show ?case by (simp add: calculate_drift_value)
qed simp_all

lemma np_clip_finite:
  "lo \<le> hi \<Longrightarrow>
     np_isnan (np_clip lo hi x) \<or> (\<exists>r. np_clip lo hi x = Fin r \<and> lo \<le> r \<and> r \<le> hi)"
  by (cases x) auto

lemma correlation_total:
  "\<exists>r. calculate_latency_price_correlation quotes = Inr (Fin r) \<and> - 1 \<le> r \<and> r \<le> 1"
proof -
  have "np_isnan (np_corrcoef xs ys)
          \<or> (\<exists>r. np_corrcoef xs ys = Fin r \<and> - 1 \<le> r \<and> r \<le> 1)" for xs ys
    unfolding np_corrcoef_def Let_def by (rule np_clip_finite) simp
  then show ?thesis
    unfolding calculate_latency_price_correlation_def correlation_loop_value
    by (auto simp: Let_def)
qed

lemma correlation_few: 
  "length quotes < 3 \<Longrightarrow> calculate_latency_price_correlation quotes = Inr (Fin 0)"
  by (simp add: calculate_latency_price_correlation_def)

text \<open>
  Claim C1, as stated: with fewer than 3 valid consecutive pairs the result is 0.0.
  The guard of the source counts samples, not pairs: three successful samples make two
  pairs, which is fewer than 3, and the coefficient is computed. For latencies 0.1 and
  0.3 after the first sample and amounts 100, 200, 800 (absolute drifts 100 and 300)
  the two points are perfectly correlated and the result is 1.0.
\<close>

theorem C1_two_pairs_counterexample:
  "calculate_latency_price_correlation
     [quote_ok 0 (2 / 10) 100, quote_ok 1 (1 / 10) 200, quote_ok 2 (3 / 10) 800]
   = Inr (Fin 1)"
proof -
  have m1: "np_mean [1 / 10, 3 / 10] = 1 / 5" by (simp add: np_mean_def)
  have m2: "np_mean [100, 300] = 200" by (simp add: np_mean_def)
  have c: "np_cov [1 / 10, 3 / 10] [100, 300] = Fin 20"
    by (simp add: np_cov_def m1 m2)
  have d0: "np_cov [1 / 10, 3 / 10] [1 / 10, 3 / 10] = Fin (2 / 100)"
    by (simp add: np_cov_def m1)
  have d1: "np_cov [100, 300] [100, 300] = Fin 20000"
    by (simp add: np_cov_def m2)
  have "sqrt (2 / 100) * sqrt 20000 = sqrt (20\<^sup>2)"
    by (simp add: real_sqrt_mult [symmetric])
  then have s: "sqrt (2 / 100) * sqrt 20000 = 20" by simp
  have pos: "sqrt (2 / 100) \<noteq> 0" "sqrt 20000 \<noteq> 0" by simp_all
  have "20 / sqrt (2 / 100) / sqrt 20000 = 20 / (sqrt (2 / 100) * sqrt 20000)"
    by simp
  also have "\<dots> = 1" by (simp only: s)
  finally have r: "20 / sqrt (2 / 100) / sqrt 20000 = 1" .
  have "np_corrcoef [1 / 10, 3 / 10] [100, 300] = Fin 1"
    unfolding np_corrcoef_def Let_def c d0 d1 using pos r by simp
  then show ?thesis
    by (simp add: calculate_latency_price_correlation_def calculate_drift_value
        drift_value_def spec_drift_def quote_ok_def)
qed

text \<open>
  Claim C1, amended: for every list of samples passed to the latency/price correlation,
  if the list has fewer than 3 samples (fewer than 2 consecutive pairs) the result is
  0.0; and the computation never raises an error.
\<close>

theorem C1_correlation:
  "(length quotes < 3 \<longrightarrow> calculate_latency_price_correlation quotes = Inr (Fin 0))
   \<and> (\<forall>e. calculate_latency_price_correlation quotes \<noteq> Inl e)"
proof -
  obtain r where "calculate_latency_price_correlation quotes = Inr (Fin r)"
    using correlation_total [of quotes] by blast
  with correlation_few [of quotes] show ?thesis by simp
qed

theorem C1_correlation_witness:
  "calculate_latency_price_correlation [quote_ok 0 (1 / 10) 100, quote_ok 1 (2 / 10) 101]
     = Inr (Fin 0)
   \<and> calculate_latency_price_correlation [] = Inr (Fin 0)"
proof -
  let ?two = "[quote_ok 0 (1 / 10) 100, quote_ok 1 (2 / 10) 101]"
  have few: "length ?two < 3" by simp
  from few C1_correlation [of ?two]
  have a: "calculate_latency_price_correlation ?two = Inr (Fin 0)" by blast
  have none: "length ([] :: QuoteData list) < 3" by simp
  from none C1_correlation [of "[]"]
  have b: "calculate_latency_price_correlation [] = Inr (Fin 0)" by blast
  from a b show ?thesis by blast
qed

section \<open>The analysis result\<close>

lemma frontrun_total: "\<exists>n. analyze_frontrun_opportunities a qs = Inr n"
  by (simp add: analyze_frontrun_opportunities_def frontrun_loop_count)

lemma map_of_dict_update_other:
  "k \<notin> fst ` set other \<Longrightarrow> map_of (dict_update d other) k = map_of d k"
  unfolding dict_update_def
proof (induction other arbitrary: d)
  case Nil
  then show ?case by simp
next
  case (Cons kv other)
  then show ?case by (cases kv) (simp add: update_conv')
qed

lemma drift_percentile_keys:
  "fst ` set (calculate_drift_percentiles ds) \<subseteq>
     {''drift_p10'', ''drift_p25'', ''drift_p50'', ''drift_p75'', ''drift_p90'',
      ''drift_p95'', ''drift_p99''}"
  by (simp add: calculate_drift_percentiles_def)

lemma latency_percentile_keys:
  "fst ` set (calculate_latency_percentiles ls) \<subseteq>
     {''latency_p10_ms'', ''latency_p25_ms'', ''latency_p50_ms'', ''latency_p75_ms'',
      ''latency_p90_ms'', ''latency_p95_ms'', ''latency_p99_ms''}"
  by (simp add: calculate_latency_percentiles_def Let_def)

lemma counts_kept:
  "map_of (dict_update (dict_update d (calculate_drift_percentiles ds))
             (calculate_latency_percentiles ls)) ''total_quotes'' = map_of d ''total_quotes''"
  "map_of (dict_update (dict_update d (calculate_drift_percentiles ds))
             (calculate_latency_percentiles ls)) ''successful_quotes''
     = map_of d ''successful_quotes''"
proof -
  have a: "''total_quotes'' \<notin> fst ` set (calculate_drift_percentiles ds)"
    "''successful_quotes'' \<notin> fst ` set (calculate_drift_percentiles ds)"
    using drift_percentile_keys [of ds] by auto
  have b: "''total_quotes'' \<notin> fst ` set (calculate_latency_percentiles ls)"
    "''successful_quotes'' \<notin> fst ` set (calculate_latency_percentiles ls)"
    using latency_percentile_keys [of ls] by auto
  show "map_of (dict_update (dict_update d (calculate_drift_percentiles ds))
             (calculate_latency_percentiles ls)) ''total_quotes'' = map_of d ''total_quotes''"
    by (simp add: map_of_dict_update_other a b)
  show "map_of (dict_update (dict_update d (calculate_drift_percentiles ds))
             (calculate_latency_percentiles ls)) ''successful_quotes''
     = map_of d ''successful_quotes''"
    by (simp add: map_of_dict_update_other a b)
qed

lemma analyze_quotes_absent:
  "length (filter success quotes) < 2 \<Longrightarrow> analyze_quotes a quotes = Inr None"
  by (simp add: analyze_quotes_def Let_def)

lemma analyze_quotes_present:
  assumes "2 \<le> length (filter success quotes)"
  shows "\<exists>results. analyze_quotes a quotes = Inr (Some results)
     \<and> map_of results ''total_quotes'' = Some (PInt (int (length quotes)))
     \<and> map_of results ''successful_quotes''
         = Some (PInt (int (length (filter success quotes))))"
proof -
  let ?sq = "filter success quotes"
  from assms have ne: "quotes \<noteq> []" by auto
  obtain ds where ds: "drift_loop ?sq = Inr ds" and len: "length ds = length ?sq - 1"
    using drift_loop_total by blast
  from len assms have dne: "ds \<noteq> []" by auto
  obtain n where n: "analyze_frontrun_opportunities a ?sq = Inr n"
    using frontrun_total by blast
  obtain r where r: "calculate_latency_price_correlation ?sq = Inr (Fin r)"
    using correlation_total by blast
  have rate: "py_truediv (real (length ?sq)) (real (length quotes))
                = Inr (real (length ?sq) / real (length quotes))"
    using ne by (simp add: py_truediv_def)
  show ?thesis
    using assms ne dne
    by (simp add: analyze_quotes_def Let_def ds n r rate counts_kept)
qed

text \<open>
  Claim C3: \<open>analyze_quotes\<close> never raises; it returns the absent result exactly when
  the input has fewer than 2 successful samples, and for every input with at least 2
  successful samples it returns a result dictionary (which reports, among the rest, the
  number of samples and of successful samples).
\<close>

theorem C3_analyze_absent_iff:
  "(analyze_quotes a quotes = Inr None \<longleftrightarrow> length (filter success quotes) < 2)
   \<and> (2 \<le> length (filter success quotes) \<longrightarrow>
        (\<exists>results. analyze_quotes a quotes = Inr (Some results)
           \<and> map_of results ''total_quotes'' = Some (PInt (int (length quotes)))
           \<and> map_of results ''successful_quotes''
               = Some (PInt (int (length (filter success quotes))))))
   \<and> (\<forall>e. analyze_quotes a quotes \<noteq> Inl e)"
proof (cases "length (filter success quotes) < 2")
  case True
  then have "analyze_quotes a quotes = Inr None" by (rule analyze_quotes_absent)
  with True show ?thesis by simp
next
  case False
  then have two: "2 \<le> length (filter success quotes)" by simp
  from analyze_quotes_present [OF two, of a] obtain results where
    "analyze_quotes a quotes = Inr (Some results)"
    "map_of results ''total_quotes'' = Some (PInt (int (length quotes)))"
    "map_of results ''successful_quotes'' = Some (PInt (int (length (filter success quotes))))"
    by blast
  with False show ?thesis by simp
qed

theorem C3_analyze_absent_iff_witness:
  "analyze_quotes DataAnalyzer_new
     [quote_ok 0 (1 / 10) 100, quote_failed 1 (1 / 10) ''HTTP 500: down''] = Inr None
   \<and> (\<exists>results. analyze_quotes DataAnalyzer_new
         [quote_ok 0 (1 / 10) 100, quote_failed 1 (1 / 10) ''HTTP 500: down'',
          quote_ok 2 (1 / 10) 101] = Inr (Some results)
        \<and> map_of results ''total_quotes'' = Some (PInt 3)
        \<and> map_of results ''successful_quotes'' = Some (PInt 2))"
proof -
  let ?one = "[quote_ok 0 (1 / 10) 100, quote_failed 1 (1 / 10) ''HTTP 500: down'']"
  let ?two = "[quote_ok 0 (1 / 10) 100, quote_failed 1 (1 / 10) ''HTTP 500: down'',
          quote_ok 2 (1 / 10) 101]"
  have ok: "success (quote_ok t l a)" "\<not> success (quote_failed t l m)" for t l a m
    by (simp_all add: quote_ok_def quote_failed_def)
  have l1: "length (filter success ?one) < 2" by (simp add: ok)
  have l2: "2 \<le> length (filter success ?two)" by (simp add: ok)
  have n2: "int (length ?two) = 3" "int (length (filter success ?two)) = 2"
    by (simp_all add: ok)
  from l1 C3_analyze_absent_iff [of DataAnalyzer_new ?one]
  have a: "analyze_quotes DataAnalyzer_new ?one = Inr None" by blast
  from l2 C3_analyze_absent_iff [of DataAnalyzer_new ?two]
  have "\<exists>results. analyze_quotes DataAnalyzer_new ?two = Inr (Some results)
           \<and> map_of results ''total_quotes'' = Some (PInt (int (length ?two)))
           \<and> map_of results ''successful_quotes''
               = Some (PInt (int (length (filter success ?two))))"
    by blast
  then have b: "\<exists>results. analyze_quotes DataAnalyzer_new ?two = Inr (Some results)
        \<and> map_of results ''total_quotes'' = Some (PInt 3)
        \<and> map_of results ''successful_quotes'' = Some (PInt 2)"
    unfolding n2 .
  from a b show ?thesis by blast
qed

end
